theory Spec2Isabelle
  imports Complex_Main "HOL-Library.Multiset" "HOL-Library.Log_Nat"
begin

section \<open>Third-party summary audit (audits/network.js)\<close>

text \<open>
  The embedding follows \<^verbatim>\<open>src/audits/network.js\<close>: the three static methods
  \<^verbatim>\<open>getSummaries\<close>, \<^verbatim>\<open>makeSubItems\<close> and \<^verbatim>\<open>audit\<close> of the class
  \<^verbatim>\<open>ThirdPartySummary\<close>.

  Conventions of the model.
  \<^item> A JavaScript \<^verbatim>\<open>Number\<close> is a rational (\<open>number\<close>); there is no \<^verbatim>\<open>NaN\<close> and no infinity.
    Every finite double is a rational. The functions come twice. In \<open>getSummaries\<close>,
    \<open>makeSubItems\<close> and \<open>audit\<close> the operations the code uses (\<open>+\<close>, \<open>-\<close>, \<open>*\<close>, \<open>/ 20\<close>,
    \<^verbatim>\<open>Math.max\<close>, comparisons) are the field operations: arithmetic is exact. In
    \<open>getSummaries64\<close> and \<open>makeSubItems64\<close> every operation is followed by the rounding to
    the nearest double, as the engine does it. The conservation of the totals (C1) and the
    consistency of the remainder (C6) compare sums that the code accumulates in different
    orders; they depend on the rounding and are settled on the second pair. The other
    properties are stated on the first.
  \<^item> A JavaScript \<^verbatim>\<open>Map\<close> is an association list with distinct keys in insertion
    order: \<^verbatim>\<open>get\<close> is \<open>map_of\<close>, \<^verbatim>\<open>set\<close> is \<open>map_set\<close> (in place for a key that is
    present, at the end for a new one), \<^verbatim>\<open>entries()\<close> is the list itself.
  \<^item> An exception is a value \<open>Inl e\<close> of the result type \<open>error + 'a\<close>.
  \<^item> What the file takes from outside is a parameter, gathered in the record \<open>environment\<close>:
    the binding of the free identifier \<^verbatim>\<open>byURL\<close> (the file declares none), the platform's
    \<^verbatim>\<open>new URL(u).host\<close>, and Lighthouse's \<^verbatim>\<open>getJavaScriptURLs\<close> and
    \<^verbatim>\<open>getAttributableURLForTask\<close>.
\<close>

subsection \<open>Data\<close>

type_synonym number = rat

datatype error =
  ReferenceError  \<comment> \<open>an identifier with no binding is read\<close>
| InvalidURL      \<comment> \<open>the \<^verbatim>\<open>TypeError\<close> of \<^verbatim>\<open>new URL(u)\<close> on a string that is no URL\<close>

text \<open>The object \<^verbatim>\<open>{ mainThreadTime, blockingTime, transferSize }\<close>.\<close>

record summary =
  mainThreadTime :: number
  blockingTime :: number
  transferSize :: number

definition defaultSummary :: summary where
  "defaultSummary = \<lparr>mainThreadTime = 0, blockingTime = 0, transferSize = 0\<rparr>"

text \<open>
  A network record (\<^verbatim>\<open>request.url\<close>, \<^verbatim>\<open>request.transferSize\<close>) and a main-thread task
  (\<^verbatim>\<open>task.selfTime\<close>). Both are record schemes: the further fields Lighthouse gives them
  are the extension, read only by the attribution functions of the environment.
\<close>

record network_record =
  request_url :: string
  request_transferSize :: number

record task =
  selfTime :: number

type_synonym 'v js_map = "(string \<times> 'v) list"

fun map_set :: "string \<Rightarrow> 'v \<Rightarrow> 'v js_map \<Rightarrow> 'v js_map" where
  "map_set k v [] = [(k, v)]"
| "map_set k v ((k', v') # m) = (if k' = k then (k, v) # m else (k', v') # map_set k v m)"

record ('r, 't, 'j) environment =
  outer_byURL :: "summary js_map option"
    \<comment> \<open>the value of the identifier \<^verbatim>\<open>byURL\<close> in the scopes around \<^verbatim>\<open>getSummaries\<close>;
        \<open>None\<close> when there is no binding\<close>
  urlHost :: "string \<Rightarrow> string option"
    \<comment> \<open>\<^verbatim>\<open>new URL(u).host\<close>; \<open>None\<close> when the constructor throws\<close>
  getJavaScriptURLs :: "'r network_record_scheme list \<Rightarrow> 'j"
  getAttributableURLForTask :: "'t task_scheme \<Rightarrow> 'j \<Rightarrow> string"

text \<open>The object \<^verbatim>\<open>{ byURL, byEntity, urls }\<close> that \<^verbatim>\<open>getSummaries\<close> returns.\<close>

record summaries =
  byURL :: "summary js_map"
  byEntity :: "summary js_map"
  urls :: "string list js_map"

subsection \<open>getSummaries\<close>

text \<open>\<^verbatim>\<open>m.get(k) || { ...defaultSummary }\<close>: an object is truthy, so the default is taken
  exactly when the key is absent.\<close>

definition get_or_default :: "summary js_map \<Rightarrow> string \<Rightarrow> summary" where
  "get_or_default m k = (case map_of m k of None \<Rightarrow> defaultSummary | Some s \<Rightarrow> s)"

text \<open>\<^verbatim>\<open>urls.get(entity) || []\<close>: an array is truthy, even when it is empty.\<close>

definition get_or_empty :: "string list js_map \<Rightarrow> string \<Rightarrow> string list" where
  "get_or_empty m k = (case map_of m k of None \<Rightarrow> [] | Some l \<Rightarrow> l)"

text \<open>Body of the loop over \<^verbatim>\<open>networkRecords\<close> (lines 39-43).\<close>

definition addRequest :: "summary js_map \<Rightarrow> 'r network_record_scheme \<Rightarrow> summary js_map" where
  "addRequest m request =
     (let urlSummary = get_or_default m (request_url request);
          urlSummary = urlSummary\<lparr>transferSize := transferSize urlSummary + request_transferSize request\<rparr>
      in map_set (request_url request) urlSummary m)"

text \<open>Body of the loop over \<^verbatim>\<open>mainThreadTasks\<close> (lines 47-55), the attributable URL given.\<close>

definition addTask :: "number \<Rightarrow> summary js_map \<Rightarrow> string \<Rightarrow> 't task_scheme \<Rightarrow> summary js_map" where
  "addTask cpuMultiplier m attributableURL t =
     (let urlSummary = get_or_default m attributableURL;
          taskDuration = selfTime t * cpuMultiplier;
          urlSummary = urlSummary\<lparr>mainThreadTime := mainThreadTime urlSummary + taskDuration\<rparr>;
          urlSummary = urlSummary\<lparr>blockingTime := blockingTime urlSummary + max (taskDuration - 50) 0\<rparr>
      in map_set attributableURL urlSummary m)"

text \<open>Body of the loop over \<^verbatim>\<open>byURL.entries()\<close> (lines 57-68), the entity given.\<close>

definition addEntity ::
  "summary js_map \<times> string list js_map \<Rightarrow> string \<Rightarrow> string \<Rightarrow> summary
     \<Rightarrow> summary js_map \<times> string list js_map" where
  "addEntity acc entity u urlSummary =
     (let entitySummary = get_or_default (fst acc) entity;
          entitySummary = entitySummary\<lparr>transferSize := transferSize entitySummary + transferSize urlSummary\<rparr>;
          entitySummary = entitySummary\<lparr>mainThreadTime := mainThreadTime entitySummary + mainThreadTime urlSummary\<rparr>;
          entitySummary = entitySummary\<lparr>blockingTime := blockingTime entitySummary + blockingTime urlSummary\<rparr>;
          entityURLs = get_or_empty (snd acc) entity
      in (map_set entity entitySummary (fst acc), map_set entity (entityURLs @ [u]) (snd acc)))"

text \<open>The loop itself: it stops with the exception of the first URL that does not parse.\<close>

fun foldEntities ::
  "(string \<Rightarrow> string option) \<Rightarrow> summary js_map \<Rightarrow> summary js_map \<times> string list js_map
     \<Rightarrow> error + (summary js_map \<times> string list js_map)" where
  "foldEntities host [] acc = Inr acc"
| "foldEntities host ((u, urlSummary) # rest) acc =
     (case host u of
        None \<Rightarrow> Inl InvalidURL
      | Some entity \<Rightarrow> foldEntities host rest (addEntity acc entity u urlSummary))"

text \<open>
  \<^verbatim>\<open>getSummaries(networkRecords, mainThreadTasks, cpuMultiplier)\<close>. The identifier
  \<^verbatim>\<open>byURL\<close> is read on every path (line 40 with a record, line 50 with a task, line 57
  in any case) and declared nowhere in the file: with no binding around the function the
  read throws. With a binding, the function works on that map, which is not emptied first.
\<close>

definition getSummaries ::
  "('r, 't, 'j) environment \<Rightarrow> 'r network_record_scheme list \<Rightarrow> 't task_scheme list \<Rightarrow> number
     \<Rightarrow> error + summaries" where
  "getSummaries env networkRecords mainThreadTasks cpuMultiplier =
     (case outer_byURL env of
        None \<Rightarrow> Inl ReferenceError
      | Some m0 \<Rightarrow>
          (let m1 = foldl addRequest m0 networkRecords;
               jsURLs = getJavaScriptURLs env networkRecords;
               m2 = foldl (\<lambda>m t. addTask cpuMultiplier m (getAttributableURLForTask env t jsURLs) t)
                      m1 mainThreadTasks
           in case foldEntities (urlHost env) m2 ([], []) of
                Inl e \<Rightarrow> Inl e
              | Inr acc \<Rightarrow> Inr \<lparr>byURL = m2, byEntity = fst acc, urls = snd acc\<rparr>))"

text \<open>The module as it is in the repository: no binding of \<^verbatim>\<open>byURL\<close>.\<close>

definition unbound :: "('r, 't, 'j) environment \<Rightarrow> ('r, 't, 'j) environment" where
  "unbound env = env\<lparr>outer_byURL := None\<rparr>"

subsection \<open>makeSubItems\<close>

definition MIN_TRANSFER_SIZE_FOR_SUBITEMS :: number where
  "MIN_TRANSFER_SIZE_FOR_SUBITEMS = 4096"

definition MAX_SUBITEMS :: nat where
  "MAX_SUBITEMS = 100"

text \<open>
  The \<^verbatim>\<open>url\<close> of a sub-item: a URL of the entity, or the localised label
  \<^verbatim>\<open>str_(i18n.UIStrings.otherResourcesLabel)\<close> of the remainder.
\<close>

datatype item_url = Url string | OtherResources

text \<open>
  A sub-item. An item of a URL is \<^verbatim>\<open>{ url, ...summaries.byURL.get(url) }\<close> and has the
  three fields of the summary; the remainder has no \<^verbatim>\<open>mainThreadTime\<close>.
\<close>

record subitem =
  url :: item_url
  item_mainThreadTime :: "number option"
  item_blockingTime :: number
  item_transferSize :: number

text \<open>\<^verbatim>\<open>x || y\<close> on numbers: \<open>x\<close> unless it is zero.\<close>

definition or_else :: "number \<Rightarrow> number \<Rightarrow> number" where
  "or_else x y = (if x \<noteq> 0 then x else y)"

text \<open>
  \<^verbatim>\<open>Array.prototype.sort(compare)\<close>: a stable sort, \<open>a\<close> after \<open>b\<close> when
  \<open>compare a b > 0\<close>. Insertion from the right end keeps equal elements in their order.
\<close>

fun insert_with :: "('a \<Rightarrow> 'a \<Rightarrow> number) \<Rightarrow> 'a \<Rightarrow> 'a list \<Rightarrow> 'a list" where
  "insert_with compare x [] = [x]"
| "insert_with compare x (y # ys) =
     (if compare x y > 0 then y # insert_with compare x ys else x # y # ys)"

definition sort_with :: "('a \<Rightarrow> 'a \<Rightarrow> number) \<Rightarrow> 'a list \<Rightarrow> 'a list" where
  "sort_with compare xs = foldr (insert_with compare) xs []"

text \<open>The comparator of line 77.\<close>

definition compare_items :: "subitem \<Rightarrow> subitem \<Rightarrow> number" where
  "compare_items a b =
     or_else (item_blockingTime b - item_blockingTime a) (item_transferSize b - item_transferSize a)"

text \<open>
  Lines 73-77: the URLs of the entity joined to their summaries, those with a positive
  transfer size kept, sorted. A URL with no entry in \<^verbatim>\<open>byURL\<close> gives the object
  \<^verbatim>\<open>{ url }\<close>, whose \<^verbatim>\<open>transferSize\<close> is undefined: \<^verbatim>\<open>undefined > 0\<close> is false and the
  filter drops it.
\<close>

definition joined :: "summaries \<Rightarrow> string \<Rightarrow> subitem option" where
  "joined s u =
     (case map_of (byURL s) u of
        None \<Rightarrow> None
      | Some stat \<Rightarrow>
          if transferSize stat > 0
          then Some \<lparr>url = Url u, item_mainThreadTime = Some (mainThreadTime stat),
                      item_blockingTime = blockingTime stat, item_transferSize = transferSize stat\<rparr>
          else None)"

definition entityItems :: "string \<Rightarrow> summaries \<Rightarrow> subitem list" where
  "entityItems entity s =
     (let entityURLs = get_or_empty (urls s) entity
      in sort_with compare_items (List.map_filter (joined s) entityURLs))"

text \<open>Line 80.\<close>

definition minTransferSize :: "summary \<Rightarrow> number" where
  "minTransferSize stats = max MIN_TRANSFER_SIZE_FOR_SUBITEMS (transferSize stats / 20)"

text \<open>The object \<^verbatim>\<open>subitemSummary\<close> of line 79.\<close>

record subitemSummary =
  sub_transferSize :: number
  sub_blockingTime :: number

text \<open>
  The loop of lines 83-92, from the state \<open>(numSubItems, subitemSummary)\<close>; it returns the
  state in which the loop ends. \<^verbatim>\<open>makeSubItems\<close> calls it with
  \<open>maxSubItems \<le> length items\<close>, so \<open>items ! numSubItems\<close> is an element of the array.
\<close>

function walk ::
  "subitem list \<Rightarrow> number \<Rightarrow> nat \<Rightarrow> nat \<Rightarrow> subitemSummary \<Rightarrow> nat \<times> subitemSummary" where
  "walk items minTS maxSubItems numSubItems sub =
     (if numSubItems < maxSubItems
      then if item_blockingTime (items ! numSubItems) = 0
              \<and> item_transferSize (items ! numSubItems) < minTS
           then (numSubItems, sub)
           else walk items minTS maxSubItems (numSubItems + 1)
                  \<lparr>sub_transferSize = sub_transferSize sub + item_transferSize (items ! numSubItems),
                   sub_blockingTime = sub_blockingTime sub + item_blockingTime (items ! numSubItems)\<rparr>
      else (numSubItems, sub))"
  by pat_completeness auto
termination
  by (relation "measure (\<lambda>(items, minTS, maxSubItems, numSubItems, sub). maxSubItems - numSubItems)") auto

declare walk.simps [simp del]

text \<open>The state after the loop, for an entity and its totals.\<close>

definition selection :: "string \<Rightarrow> summaries \<Rightarrow> summary \<Rightarrow> nat \<times> subitemSummary" where
  "selection entity s stats =
     (let items = entityItems entity s
      in walk items (minTransferSize stats) (min MAX_SUBITEMS (length items)) 0
           \<lparr>sub_transferSize = 0, sub_blockingTime = 0\<rparr>)"

text \<open>Lines 97-101.\<close>

definition remainder :: "summary \<Rightarrow> subitemSummary \<Rightarrow> subitem" where
  "remainder stats sub =
     \<lparr>url = OtherResources, item_mainThreadTime = None,
      item_blockingTime = blockingTime stats - sub_blockingTime sub,
      item_transferSize = transferSize stats - sub_transferSize sub\<rparr>"

text \<open>\<^verbatim>\<open>makeSubItems(entity, summaries, stats)\<close>. \<^verbatim>\<open>!x\<close> of a number holds when it is zero.\<close>

definition makeSubItems :: "string \<Rightarrow> summaries \<Rightarrow> summary \<Rightarrow> subitem list" where
  "makeSubItems entity s stats =
     (let items = entityItems entity s;
          numSubItems = fst (selection entity s stats);
          sub = snd (selection entity s stats)
      in if sub_blockingTime sub = 0 \<and> sub_transferSize sub = 0 then []
         else (let items = take numSubItems items
               in if item_transferSize (remainder stats sub) > minTransferSize stats
                  then items @ [remainder stats sub]
                  else items))"

subsection \<open>Rounding to binary64\<close>

text \<open>
  The value of a JavaScript operation is the exact result rounded to the nearest double,
  ties to the even significand. \<open>double x\<close> is that rounding for a rational \<open>x\<close> of
  magnitude below \<open>2 ^ 1024\<close> (beyond it the operation gives an infinity, which is not
  modelled): \<open>exponent\<close> gives the \<open>e\<close> with \<open>2 ^ e \<le> x < 2 ^ (e + 1)\<close>, the significand
  has 53 bits, and below \<open>2 ^ (- 1022)\<close> the spacing stays \<open>2 ^ (- 1074)\<close>.
\<close>

definition pow2 :: "int \<Rightarrow> rat" where
  "pow2 k = (if 0 \<le> k then 2 ^ nat k else 1 / 2 ^ nat (- k))"

definition round_even :: "rat \<Rightarrow> int" where
  "round_even x =
     (let n = \<lfloor>x\<rfloor>; r = x - of_int n
      in if r < 1 / 2 then n else if 1 / 2 < r then n + 1 else if even n then n else n + 1)"

definition exponent :: "rat \<Rightarrow> int" where
  "exponent x =
     (if 1 \<le> x then bitlen \<lfloor>x\<rfloor> - 1
      else (let c = bitlen \<lfloor>1 / x\<rfloor> - 1 in if x * 2 ^ nat c = 1 then - c else - c - 1))"

definition double :: "rat \<Rightarrow> rat" where
  "double x =
     (if x = 0 then 0
      else (let q = max (exponent \<bar>x\<bar>) (- 1022) - 52
            in sgn x * of_int (round_even (\<bar>x\<bar> / pow2 q)) * pow2 q))"






definition compare_items64 :: "subitem \<Rightarrow> subitem \<Rightarrow> number" where
  "compare_items64 a b =
     or_else (double (item_blockingTime b - item_blockingTime a))
             (double (item_transferSize b - item_transferSize a))"

definition entityItems64 :: "string \<Rightarrow> summaries \<Rightarrow> subitem list" where
  "entityItems64 entity s =
     (let entityURLs = get_or_empty (urls s) entity
      in sort_with compare_items64 (List.map_filter (joined s) entityURLs))"

definition minTransferSize64 :: "summary \<Rightarrow> number" where
  "minTransferSize64 stats = max MIN_TRANSFER_SIZE_FOR_SUBITEMS (double (transferSize stats / 20))"

function walk64 ::
  "subitem list \<Rightarrow> number \<Rightarrow> nat \<Rightarrow> nat \<Rightarrow> subitemSummary \<Rightarrow> nat \<times> subitemSummary" where
  "walk64 items minTS maxSubItems numSubItems sub =
     (if numSubItems < maxSubItems
      then if item_blockingTime (items ! numSubItems) = 0
              \<and> item_transferSize (items ! numSubItems) < minTS
           then (numSubItems, sub)
           else walk64 items minTS maxSubItems (numSubItems + 1)
                  \<lparr>sub_transferSize =
                     double (sub_transferSize sub + item_transferSize (items ! numSubItems)),
                   sub_blockingTime =
                     double (sub_blockingTime sub + item_blockingTime (items ! numSubItems))\<rparr>
      else (numSubItems, sub))"
  by pat_completeness auto
termination
  by (relation "measure (\<lambda>(items, minTS, maxSubItems, numSubItems, sub). maxSubItems - numSubItems)") auto

declare walk64.simps [simp del]

definition selection64 :: "string \<Rightarrow> summaries \<Rightarrow> summary \<Rightarrow> nat \<times> subitemSummary" where
  "selection64 entity s stats =
     (let items = entityItems64 entity s
      in walk64 items (minTransferSize64 stats) (min MAX_SUBITEMS (length items)) 0
           \<lparr>sub_transferSize = 0, sub_blockingTime = 0\<rparr>)"



subsection \<open>audit\<close>

definition PASS_THRESHOLD_IN_MS :: number where
  "PASS_THRESHOLD_IN_MS = 250"

text \<open>
  What \<^verbatim>\<open>audit\<close> reads of its arguments: the final URL of the page, the network records
  and the tasks that Lighthouse computes from the logs, and two settings.
\<close>

record ('r, 't) artifacts =
  finalUrl :: string
  networkRecords :: "'r network_record_scheme list"
  tasks :: "'t task_scheme list"

record settings =
  throttlingMethod :: string
  cpuSlowdownMultiplier :: number

text \<open>A row of the table: \<^verbatim>\<open>{ ...stats, entity: { text, url }, subItems: { items } }\<close>.\<close>

record row =
  stats :: summary
  entity_text :: string
  entity_url :: string
  subItems :: "subitem list"

record overallSummary =
  wastedBytes :: number
  wastedMs :: number

text \<open>
  The object \<^verbatim>\<open>audit\<close> returns. \<open>notApplicable\<close> is true when the key is there (its value
  is then \<^verbatim>\<open>true\<close>); \<open>displayValue\<close> holds the \<^verbatim>\<open>timeInMs\<close> of the message;
  \<open>details\<close> holds the rows and the summary given to \<^verbatim>\<open>Audit.makeTableDetails\<close>.
\<close>

record audit_result =
  score :: number
  notApplicable :: bool
  displayValue :: "number option"
  details :: "(row list \<times> overallSummary) option"

text \<open>Line 122: the test of the filter, on the key of an entry.\<close>

definition keepEntity :: "string \<Rightarrow> string \<Rightarrow> bool" where
  "keepEntity mainEntity entity = (\<not> (mainEntity \<noteq> [] \<and> mainEntity = entity))"

text \<open>Lines 123-139: the row of an entry; \<^verbatim>\<open>entity || ''\<close> is the entity itself.\<close>

definition makeRow :: "summaries \<Rightarrow> string \<times> summary \<Rightarrow> row" where
  "makeRow s e =
     \<lparr>stats = snd e, entity_text = fst e,
      entity_url = (if fst e \<noteq> [] then fst e else []),
      subItems = makeSubItems (fst e) s (snd e)\<rparr>"

text \<open>Lines 124-125: what the callback of \<^verbatim>\<open>map\<close> adds to \<^verbatim>\<open>overallSummary\<close>.\<close>

definition accumulate :: "overallSummary \<Rightarrow> string \<times> summary \<Rightarrow> overallSummary" where
  "accumulate ov e =
     \<lparr>wastedBytes = wastedBytes ov + transferSize (snd e),
      wastedMs = wastedMs ov + blockingTime (snd e)\<rparr>"

text \<open>The comparator of line 140.\<close>

definition compare_rows :: "row \<Rightarrow> row \<Rightarrow> number" where
  "compare_rows a b =
     or_else (blockingTime (stats b) - blockingTime (stats a))
             (transferSize (stats b) - transferSize (stats a))"

text \<open>Lines 119-140: the rows and the totals, from the summaries.\<close>

definition results :: "string \<Rightarrow> summaries \<Rightarrow> row list" where
  "results mainEntity s =
     sort_with compare_rows (map (makeRow s) (filter (\<lambda>e. keepEntity mainEntity (fst e)) (byEntity s)))"

definition overall :: "string \<Rightarrow> summaries \<Rightarrow> overallSummary" where
  "overall mainEntity s =
     foldl accumulate \<lparr>wastedBytes = 0, wastedMs = 0\<rparr>
       (filter (\<lambda>e. keepEntity mainEntity (fst e)) (byEntity s))"

text \<open>Lines 148-161.\<close>

definition verdict :: "row list \<Rightarrow> overallSummary \<Rightarrow> audit_result" where
  "verdict rows ov =
     (if length rows = 0
      then \<lparr>score = 1, notApplicable = True, displayValue = None, details = None\<rparr>
      else \<lparr>score = (if wastedMs ov \<le> PASS_THRESHOLD_IN_MS then 1 else 0),
            notApplicable = False,
            displayValue = Some (wastedMs ov),
            details = Some (rows, ov)\<rparr>)"

text \<open>
  \<^verbatim>\<open>audit(artifacts, context)\<close>. The final URL is parsed (line 113) before
  \<^verbatim>\<open>getSummaries\<close> is called (line 118), so its exception comes first. The multiplier
  is that of lines 115-116.
\<close>

definition multiplier :: "settings \<Rightarrow> number" where
  "multiplier settings =
     (if throttlingMethod settings = ''simulate'' then cpuSlowdownMultiplier settings else 1)"

definition audit ::
  "('r, 't, 'j) environment \<Rightarrow> ('r, 't) artifacts \<Rightarrow> settings \<Rightarrow> error + audit_result" where
  "audit env artifacts settings =
     (case urlHost env (finalUrl artifacts) of
        None \<Rightarrow> Inl InvalidURL
      | Some mainEntity \<Rightarrow>
          (case getSummaries env (networkRecords artifacts) (tasks artifacts) (multiplier settings) of
             Inl e \<Rightarrow> Inl e
           | Inr s \<Rightarrow> Inr (verdict (results mainEntity s) (overall mainEntity s))))"

section \<open>Observations and example inputs\<close>

text \<open>The sum of one field over the entries of a map, and over a list of sub-items.\<close>

definition sumOver :: "(summary \<Rightarrow> number) \<Rightarrow> summary js_map \<Rightarrow> number" where
  "sumOver f m = sum_list (map (\<lambda>e. f (snd e)) m)"

definition sumItems :: "(subitem \<Rightarrow> number) \<Rightarrow> subitem list \<Rightarrow> number" where
  "sumItems f items = sum_list (map f items)"

text \<open>Every summary of a map has \<open>blockingTime \<le> mainThreadTime\<close>.\<close>

definition bounded :: "summary js_map \<Rightarrow> bool" where
  "bounded m = list_all (\<lambda>e. blockingTime (snd e) \<le> mainThreadTime (snd e)) m"

text \<open>
  An example run: a page with two hosts, a task being given as its self time and the URL
  it is attributed to; \<^verbatim>\<open>byURL\<close> is bound to an empty map.
\<close>

definition example_hosts :: "string \<Rightarrow> string option" where
  "example_hosts = map_of
     [(''https://a.com/x.js'', ''a.com''), (''https://a.com/y.js'', ''a.com''),
      (''https://b.com/'', ''b.com''), (''https://b.com/app.js'', ''b.com'')]"

definition example_env :: "(unit, string, unit) environment" where
  "example_env = \<lparr>outer_byURL = Some [], urlHost = example_hosts, getJavaScriptURLs = (\<lambda>_. ()),
                  getAttributableURLForTask = (\<lambda>t _. task.more t)\<rparr>"

definition example_records :: "network_record list" where
  "example_records =
     [\<lparr>request_url = ''https://a.com/x.js'', request_transferSize = 10000\<rparr>,
      \<lparr>request_url = ''https://b.com/app.js'', request_transferSize = 500\<rparr>,
      \<lparr>request_url = ''https://a.com/x.js'', request_transferSize = 24\<rparr>]"

definition example_tasks :: "string task_scheme list" where
  "example_tasks =
     [\<lparr>selfTime = 100, \<dots> = ''https://a.com/x.js''\<rparr>,
      \<lparr>selfTime = 30, \<dots> = ''https://b.com/app.js''\<rparr>,
      \<lparr>selfTime = 100, \<dots> = ''https://a.com/y.js''\<rparr>]"

definition example_summaries :: summaries where
  "example_summaries =
     \<lparr>byURL = [(''https://a.com/x.js'', \<lparr>mainThreadTime = 200, blockingTime = 150, transferSize = 10024\<rparr>),
               (''https://b.com/app.js'', \<lparr>mainThreadTime = 60, blockingTime = 10, transferSize = 500\<rparr>),
               (''https://a.com/y.js'', \<lparr>mainThreadTime = 200, blockingTime = 150, transferSize = 0\<rparr>)],
      byEntity = [(''a.com'', \<lparr>mainThreadTime = 400, blockingTime = 300, transferSize = 10024\<rparr>),
                  (''b.com'', \<lparr>mainThreadTime = 60, blockingTime = 10, transferSize = 500\<rparr>)],
      urls = [(''a.com'', [''https://a.com/x.js'', ''https://a.com/y.js'']),
              (''b.com'', [''https://b.com/app.js''])]\<rparr>"

text \<open>The entities of the rows of a result: none when the result has no table.\<close>

definition row_entities :: "audit_result \<Rightarrow> string list" where
  "row_entities r = (case details r of None \<Rightarrow> [] | Some d \<Rightarrow> map entity_text (fst d))"

text \<open>
  Audits of three pages: the example run as a page of \<^verbatim>\<open>b.com\<close>; a page of \<^verbatim>\<open>b.com\<close> that loads
  from its own host only; and a page opened from a file, whose URLs have the empty host.
\<close>

definition example_page :: "(unit, string) artifacts" where
  "example_page = \<lparr>finalUrl = ''https://b.com/'', networkRecords = example_records, tasks = example_tasks\<rparr>"

definition example_settings :: settings where
  "example_settings = \<lparr>throttlingMethod = ''simulate'', cpuSlowdownMultiplier = 2\<rparr>"

definition example_result :: audit_result where
  "example_result =
     \<lparr>score = 0, notApplicable = False, displayValue = Some 300,
      details = Some
        ([\<lparr>stats = \<lparr>mainThreadTime = 400, blockingTime = 300, transferSize = 10024\<rparr>,
           entity_text = ''a.com'', entity_url = ''a.com'',
           subItems = [\<lparr>url = Url ''https://a.com/x.js'', item_mainThreadTime = Some 200,
                        item_blockingTime = 150, item_transferSize = 10024\<rparr>]\<rparr>],
         \<lparr>wastedBytes = 10024, wastedMs = 300\<rparr>)\<rparr>"

definition local_result :: audit_result where
  "local_result =
     \<lparr>score = 1, notApplicable = False, displayValue = Some 0,
      details = Some
        ([\<lparr>stats = \<lparr>mainThreadTime = 0, blockingTime = 0, transferSize = 10000\<rparr>,
           entity_text = [], entity_url = [],
           subItems = [\<lparr>url = Url ''file:///app.js'', item_mainThreadTime = Some 0,
                        item_blockingTime = 0, item_transferSize = 10000\<rparr>]\<rparr>],
         \<lparr>wastedBytes = 10000, wastedMs = 0\<rparr>)\<rparr>"

definition local_summaries :: summaries where
  "local_summaries =
     \<lparr>byURL = [(''file:///app.js'', \<lparr>mainThreadTime = 0, blockingTime = 0, transferSize = 10000\<rparr>)],
      byEntity = [([], \<lparr>mainThreadTime = 0, blockingTime = 0, transferSize = 10000\<rparr>)],
      urls = [([], [''file:///app.js''])]\<rparr>"

definition own_page :: "(unit, string) artifacts" where
  "own_page = \<lparr>finalUrl = ''https://b.com/'',
               networkRecords = [\<lparr>request_url = ''https://b.com/app.js'', request_transferSize = 500\<rparr>],
               tasks = [\<lparr>selfTime = 400, \<dots> = ''https://b.com/app.js''\<rparr>]\<rparr>"

definition own_summaries :: summaries where
  "own_summaries =
     \<lparr>byURL = [(''https://b.com/app.js'', \<lparr>mainThreadTime = 800, blockingTime = 750, transferSize = 500\<rparr>)],
      byEntity = [(''b.com'', \<lparr>mainThreadTime = 800, blockingTime = 750, transferSize = 500\<rparr>)],
      urls = [(''b.com'', [''https://b.com/app.js''])]\<rparr>"

definition notApplicable_result :: audit_result where
  "notApplicable_result = \<lparr>score = 1, notApplicable = True, displayValue = None, details = None\<rparr>"

definition local_hosts :: "string \<Rightarrow> string option" where
  "local_hosts = map_of [(''file:///index.html'', ''''), (''file:///app.js'', '''')]"

definition local_env :: "(unit, string, unit) environment" where
  "local_env = \<lparr>outer_byURL = Some [], urlHost = local_hosts, getJavaScriptURLs = (\<lambda>_. ()),
                getAttributableURLForTask = (\<lambda>t _. task.more t)\<rparr>"

definition local_page :: "(unit, string) artifacts" where
  "local_page = \<lparr>finalUrl = ''file:///index.html'',
                 networkRecords = [\<lparr>request_url = ''file:///app.js'', request_transferSize = 10000\<rparr>],
                 tasks = []\<rparr>"

text \<open>
  Scenario 5 of the specification: one entity with 200 URLs of 100 bytes each and no
  task. The URLs differ in their length.
\<close>

definition scenario_urls :: "string list" where
  "scenario_urls = map (\<lambda>i. ''https://cdn.example/r'' @ replicate i (CHR ''x'')) [0..<200]"

definition scenario_records :: "network_record list" where
  "scenario_records = map (\<lambda>u. \<lparr>request_url = u, request_transferSize = 100\<rparr>) scenario_urls"

definition scenario_env :: "(unit, string, unit) environment" where
  "scenario_env = \<lparr>outer_byURL = Some [], urlHost = (\<lambda>u. Some ''cdn.example''),
                   getJavaScriptURLs = (\<lambda>_. ()), getAttributableURLForTask = (\<lambda>t _. task.more t)\<rparr>"

definition scenario_stats :: summary where
  "scenario_stats = \<lparr>mainThreadTime = 0, blockingTime = 0, transferSize = 20000\<rparr>"

definition scenario_summaries :: summaries where
  "scenario_summaries =
     \<lparr>byURL = map (\<lambda>u. (u, \<lparr>mainThreadTime = 0, blockingTime = 0, transferSize = 100\<rparr>)) scenario_urls,
      byEntity = [(''cdn.example'', scenario_stats)],
      urls = [(''cdn.example'', scenario_urls)]\<rparr>"

text \<open>
  A smaller run on one host: two style sheets of 3000 bytes.
\<close>

definition small_hosts :: "string \<Rightarrow> string option" where
  "small_hosts = map_of
     [(''https://c.com/a.css'', ''c.com''), (''https://c.com/b.css'', ''c.com''),
      (''https://c.com/app.js'', ''c.com'')]"

definition small_env :: "(unit, string, unit) environment" where
  "small_env = \<lparr>outer_byURL = Some [], urlHost = small_hosts, getJavaScriptURLs = (\<lambda>_. ()),
                getAttributableURLForTask = (\<lambda>t _. task.more t)\<rparr>"

definition small_records :: "network_record list" where
  "small_records =
     [\<lparr>request_url = ''https://c.com/a.css'', request_transferSize = 3000\<rparr>,
      \<lparr>request_url = ''https://c.com/b.css'', request_transferSize = 3000\<rparr>]"

definition small_stats :: summary where
  "small_stats = \<lparr>mainThreadTime = 0, blockingTime = 0, transferSize = 6000\<rparr>"

definition small_summaries :: summaries where
  "small_summaries =
     \<lparr>byURL = [(''https://c.com/a.css'', \<lparr>mainThreadTime = 0, blockingTime = 0, transferSize = 3000\<rparr>),
               (''https://c.com/b.css'', \<lparr>mainThreadTime = 0, blockingTime = 0, transferSize = 3000\<rparr>)],
      byEntity = [(''c.com'', small_stats)],
      urls = [(''c.com'', [''https://c.com/a.css'', ''https://c.com/b.css''])]\<rparr>"

text \<open>A number that is a count: an integer that is not negative.\<close>

definition is_count :: "rat \<Rightarrow> bool" where
  "is_count x = (0 \<le> x \<and> of_int \<lfloor>x\<rfloor> = x)"


text \<open>Every summary of a map holds a count in the field \<open>f\<close>.\<close>

definition counts :: "(summary \<Rightarrow> number) \<Rightarrow> summary js_map \<Rightarrow> bool" where
  "counts f m = list_all (\<lambda>e. is_count (f (snd e))) m"















section \<open>Properties\<close>


subsection \<open>Maps and sums\<close>




lemma sumOver_simps [simp]:
  "sumOver f [] = 0" "sumOver f (p # m) = f (snd p) + sumOver f m"
  by (simp_all add: sumOver_def)



lemma defaultSummary_simps [simp]:
  "transferSize defaultSummary = 0" "mainThreadTime defaultSummary = 0" "blockingTime defaultSummary = 0"
  by (simp_all add: defaultSummary_def)

lemma getSummaries_Inr:
  assumes "outer_byURL env = Some m0" and "getSummaries env recs ts c = Inr s"
  shows "byURL s = foldl (\<lambda>m t. addTask c m (getAttributableURLForTask env t (getJavaScriptURLs env recs)) t)
                     (foldl addRequest m0 recs) ts"
    and "foldEntities (urlHost env) (byURL s) ([], []) = Inr (byEntity s, urls s)"
  using assms by (auto simp: getSummaries_def Let_def split: sum.splits)


lemma getSummaries_example: "getSummaries example_env example_records example_tasks 2 = Inr example_summaries"
  by (simp add: getSummaries_def example_env_def example_records_def example_tasks_def
      example_summaries_def example_hosts_def addRequest_def addTask_def addEntity_def
      get_or_default_def get_or_empty_def defaultSummary_def)








lemma bounded_map_set:
  "bounded m \<Longrightarrow> blockingTime v \<le> mainThreadTime v \<Longrightarrow> bounded (map_set k v m)"
  by (induction m) (auto simp: bounded_def)

lemma bounded_get_or_default:
  "bounded m \<Longrightarrow> blockingTime (get_or_default m k) \<le> mainThreadTime (get_or_default m k)"
  by (auto simp: bounded_def get_or_default_def list_all_iff split: option.splits dest!: map_of_SomeD)

lemma bounded_addRequest: "bounded m \<Longrightarrow> bounded (addRequest m r)"
  using bounded_get_or_default[of m "request_url r"]
  by (simp add: addRequest_def Let_def bounded_map_set)

lemma bounded_addTask: "bounded m \<Longrightarrow> 0 \<le> selfTime t * c \<Longrightarrow> bounded (addTask c m a t)"
  using bounded_get_or_default[of m a]
  by (auto simp: addTask_def Let_def intro!: bounded_map_set)

lemma bounded_addEntity:
  "bounded (fst acc) \<Longrightarrow> blockingTime st \<le> mainThreadTime st \<Longrightarrow> bounded (fst (addEntity acc e u st))"
  using bounded_get_or_default[of "fst acc" e]
  by (auto simp: addEntity_def Let_def intro!: bounded_map_set)

lemma bounded_requests: "bounded m \<Longrightarrow> bounded (foldl addRequest m rs)"
  by (induction rs arbitrary: m) (simp_all add: bounded_addRequest)

lemma bounded_tasks:
  "bounded m \<Longrightarrow> \<forall>t\<in>set ts. 0 \<le> selfTime t * c \<Longrightarrow> bounded (foldl (\<lambda>m t. addTask c m (a t) t) m ts)"
  by (induction ts arbitrary: m) (simp_all add: bounded_addTask)

lemma bounded_foldEntities:
  "foldEntities host m acc = Inr acc' \<Longrightarrow> bounded m \<Longrightarrow> bounded (fst acc) \<Longrightarrow> bounded (fst acc')"
proof (induction m arbitrary: acc)
  case Nil
  then show ?case by simp
next
  case (Cons p m)
  obtain u st where p: "p = (u, st)" by (cases p)
  from Cons.prems p obtain e where "host u = Some e"
    and rest: "foldEntities host m (addEntity acc e u st) = Inr acc'"
    by (auto split: option.splits)
  moreover from Cons.prems(2) p have "blockingTime st \<le> mainThreadTime st" and "bounded m"
    by (simp_all add: bounded_def)
  ultimately show ?case using Cons.IH Cons.prems(3) bounded_addEntity by blast
qed


subsection \<open>Sorting and the selection loop\<close>

lemma mset_insert_with: "mset (insert_with c x ys) = add_mset x (mset ys)"
  by (induction ys) simp_all

lemma mset_sort_with: "mset (sort_with c xs) = mset xs"
  by (induction xs) (simp_all add: sort_with_def mset_insert_with)

lemma set_sort_with: "set (sort_with c xs) = set xs"
  using mset_sort_with[of c xs] by (metis set_mset_mset)

lemma length_sort_with: "length (sort_with c xs) = length xs"
  using mset_sort_with[of c xs] by (metis size_mset)

lemma sum_list_insert_with:
  "sum_list (map f (insert_with c x ys)) = (f x :: number) + sum_list (map f ys)"
  by (induction ys) simp_all

lemma sum_list_sort_with: "sum_list (map f (sort_with c xs)) = (sum_list (map f xs) :: number)"
  by (induction xs) (simp_all add: sort_with_def sum_list_insert_with)

lemma walk_bounds:
  "n \<le> maxN \<Longrightarrow> n \<le> fst (walk items minTS maxN n sub) \<and> fst (walk items minTS maxN n sub) \<le> maxN"
proof (induction items minTS maxN n sub rule: walk.induct)
  case (1 items minTS maxN n sub)
  show ?case
  proof (cases "n < maxN \<and> \<not> (item_blockingTime (items ! n) = 0 \<and> item_transferSize (items ! n) < minTS)")
    case True
    then have "n + 1 \<le> maxN" by simp
    with 1 True show ?thesis
      by (subst (1 2) walk.simps) auto
  next
    case False
    with 1(2) show ?thesis
      by (subst (1 2) walk.simps) auto
  qed
qed

lemma sum_take_Suc:
  "n < length xs \<Longrightarrow> sum_list (map f (take (Suc n) xs)) = sum_list (map f (take n xs)) + f (xs ! n)"
  by (simp add: take_Suc_conv_app_nth)

lemma walk_sums:
  assumes "maxN \<le> length items" and "n \<le> maxN"
  shows "sub_transferSize (snd (walk items minTS maxN n sub))
           = sub_transferSize sub + sumItems item_transferSize (take (fst (walk items minTS maxN n sub)) items)
               - sumItems item_transferSize (take n items)
       \<and> sub_blockingTime (snd (walk items minTS maxN n sub))
           = sub_blockingTime sub + sumItems item_blockingTime (take (fst (walk items minTS maxN n sub)) items)
               - sumItems item_blockingTime (take n items)"
  using assms
proof (induction items minTS maxN n sub rule: walk.induct)
  case (1 items minTS maxN n sub)
  show ?case
  proof (cases "n < maxN \<and> \<not> (item_blockingTime (items ! n) = 0 \<and> item_transferSize (items ! n) < minTS)")
    case True
    then have n: "n + 1 \<le> maxN" "n < length items" using 1(2) by simp_all
    let ?sub = "\<lparr>sub_transferSize = sub_transferSize sub + item_transferSize (items ! n),
                 sub_blockingTime = sub_blockingTime sub + item_blockingTime (items ! n)\<rparr>"
    have eq: "walk items minTS maxN n sub = walk items minTS maxN (n + 1) ?sub"
      using True by (subst walk.simps) auto
    from 1(1)[OF _ _ 1(2) n(1)] True
    show ?thesis
      unfolding eq by (simp add: sumItems_def sum_take_Suc[OF n(2)])
  next
    case False
    then have "walk items minTS maxN n sub = (n, sub)"
      by (subst walk.simps) auto
    then show ?thesis by simp
  qed
qed

lemma walk_stop_first:
  assumes "0 < maxN" and "item_blockingTime (items ! 0) = 0" and "item_transferSize (items ! 0) < minTS"
  shows "walk items minTS maxN 0 sub = (0, sub)"
  using assms by (subst walk.simps) simp

lemma selection_bounds:
  "fst (selection e s st) \<le> MAX_SUBITEMS \<and> fst (selection e s st) \<le> length (entityItems e s)"
  using walk_bounds[of 0 "min MAX_SUBITEMS (length (entityItems e s))" "entityItems e s" "minTransferSize st"]
  by (simp add: selection_def Let_def)

lemma selection_sums:
  "sub_transferSize (snd (selection e s st))
     = sumItems item_transferSize (take (fst (selection e s st)) (entityItems e s))"
  "sub_blockingTime (snd (selection e s st))
     = sumItems item_blockingTime (take (fst (selection e s st)) (entityItems e s))"
  using walk_sums[of "min MAX_SUBITEMS (length (entityItems e s))" "entityItems e s" 0 "minTransferSize st"
      "\<lparr>sub_transferSize = 0, sub_blockingTime = 0\<rparr>"]
  by (simp_all add: selection_def Let_def sumItems_def)


lemmas eval_simps =
  getSummaries_def addRequest_def addTask_def addEntity_def get_or_default_def get_or_empty_def
  defaultSummary_def
  audit_def multiplier_def results_def overall_def keepEntity_def makeRow_def accumulate_def
  verdict_def PASS_THRESHOLD_IN_MS_def sort_with_def compare_rows_def compare_items_def or_else_def
  makeSubItems_def entityItems_def selection_def joined_def minTransferSize_def remainder_def
  MIN_TRANSFER_SIZE_FOR_SUBITEMS_def MAX_SUBITEMS_def List.map_filter_def walk.simps

subsection \<open>Rounding\<close>







lemma is_count_iff: "is_count x \<longleftrightarrow> 0 \<le> x \<and> x \<in> \<int>"
  by (auto simp: is_count_def Ints_def)

lemma is_count_0 [simp]: "is_count 0"
  by (simp add: is_count_iff)






lemma counts_Nil [simp]: "counts f []"
  by (simp add: counts_def)

lemma counts_Cons [simp]: "counts f (p # m) \<longleftrightarrow> is_count (f (snd p)) \<and> counts f m"
  by (simp add: counts_def)













subsection \<open>getSummaries with rounding\<close>

















subsection \<open>The claims on getSummaries\<close>







text \<open>
  C9. \<open>blockingTime \<le> mainThreadTime\<close>. For tasks with a self time that is not negative and
  a multiplier that is not negative (the inputs of the data model), and \<^verbatim>\<open>byURL\<close> bound
  to an empty map: every summary of \<^verbatim>\<open>byURL\<close> and every summary of \<^verbatim>\<open>byEntity\<close>
  returned has \<open>blockingTime \<le> mainThreadTime\<close>, and one pass of the loop over the tasks
  keeps the property of the map.
\<close>

theorem getSummaries_blocking_le_mainThread:
  assumes "outer_byURL env = Some []" and "getSummaries env recs ts c = Inr s"
    and "0 \<le> c" and "\<forall>t\<in>set ts. 0 \<le> selfTime t"
  shows "(\<forall>e\<in>set (byURL s). blockingTime (snd e) \<le> mainThreadTime (snd e))
       \<and> (\<forall>e\<in>set (byEntity s). blockingTime (snd e) \<le> mainThreadTime (snd e))
       \<and> (bounded m \<longrightarrow> 0 \<le> selfTime t \<longrightarrow> bounded (addTask c m a t))"
proof -
  note S = getSummaries_Inr[OF assms(1,2)]
  have nonneg: "\<forall>t\<in>set ts. 0 \<le> selfTime t * c"
    using assms(3,4) by simp
  have "bounded []" by (simp add: bounded_def)
  then have U: "bounded (byURL s)"
    unfolding S(1) by (intro bounded_tasks bounded_requests nonneg)
  have E: "bounded (byEntity s)"
    using bounded_foldEntities[OF S(2) U] by (simp add: bounded_def)
  have "bounded m \<longrightarrow> 0 \<le> selfTime t \<longrightarrow> bounded (addTask c m a t)"
    using assms(3) by (simp add: bounded_addTask)
  with U E show ?thesis by (simp add: bounded_def list_all_iff)
qed

theorem getSummaries_blocking_le_mainThread_witness:
  "outer_byURL example_env = Some []
   \<and> getSummaries example_env example_records example_tasks 2 = Inr example_summaries
   \<and> (0::number) \<le> 2 \<and> list_all (\<lambda>t. 0 \<le> selfTime t) example_tasks
   \<and> bounded (byURL example_summaries) \<and> bounded (byEntity example_summaries)
   \<and> bounded (addTask 2 [] ''https://a.com/x.js'' \<lparr>selfTime = 100\<rparr>)"
  using getSummaries_blocking_le_mainThread[of example_env example_records example_tasks 2
      example_summaries "[]" "\<lparr>selfTime = 100\<rparr>" "''https://a.com/x.js''"]
    getSummaries_example
  by (simp add: example_env_def example_tasks_def bounded_def list_all_iff)

subsection \<open>The claims on makeSubItems\<close>

lemma set_map_filter: "set (List.map_filter f xs) = {y. \<exists>x\<in>set xs. f x = Some y}"
  by (induction xs) (auto simp: map_filter_simps split: option.splits)

lemma entityItems_joined:
  "it \<in> set (entityItems e s) \<Longrightarrow> \<exists>u. joined s u = Some it"
  by (auto simp: entityItems_def set_sort_with set_map_filter)

lemma joined_Some:
  "joined s u = Some it \<Longrightarrow>
     \<exists>st. (u, st) \<in> set (byURL s) \<and> url it = Url u \<and> item_blockingTime it = blockingTime st
          \<and> item_transferSize it = transferSize st \<and> 0 < transferSize st"
  by (auto simp: joined_def split: option.splits if_splits dest: map_of_SomeD)

lemma entityItems_positive: "it \<in> set (entityItems e s) \<Longrightarrow> 0 < item_transferSize it"
  by (auto dest!: entityItems_joined joined_Some)

lemma selection_stops_first:
  assumes "\<forall>it\<in>set (entityItems e s). item_blockingTime it = 0 \<and> item_transferSize it < minTransferSize st"
  shows "selection e s st = (0, \<lparr>sub_transferSize = 0, sub_blockingTime = 0\<rparr>)"
proof (cases "entityItems e s")
  case Nil
  then show ?thesis by (simp add: selection_def walk.simps)
next
  case (Cons it its)
  then have "entityItems e s ! 0 \<in> set (entityItems e s)" by simp
  with assms have "item_blockingTime (entityItems e s ! 0) = 0"
    and "item_transferSize (entityItems e s ! 0) < minTransferSize st" by blast+
  moreover have "0 < min MAX_SUBITEMS (length (entityItems e s))"
    using Cons by (simp add: MAX_SUBITEMS_def)
  ultimately show ?thesis
    unfolding selection_def Let_def by (rule walk_stop_first[rotated -1, rotated -1])
qed

lemma makeSubItems_stops_first:
  assumes "\<forall>it\<in>set (entityItems e s). item_blockingTime it = 0 \<and> item_transferSize it < minTransferSize st"
  shows "makeSubItems e s st = []"
  by (simp add: makeSubItems_def selection_stops_first[OF assms])

lemma sum_list_pos_take:
  assumes "\<forall>x\<in>set xs. 0 < (f x :: number)" and "0 < n" and "xs \<noteq> []"
  shows "0 < sum_list (map f (take n xs))"
proof -
  obtain x xs' where xs: "xs = x # xs'" using assms(3) by (cases xs) auto
  obtain n' where n: "n = Suc n'" using assms(2) by (cases n) auto
  have "0 \<le> sum_list (map f (take n' xs'))"
    using assms(1) xs by (intro sum_list_nonneg) (auto dest!: in_set_takeD intro: less_imp_le)
  moreover have "0 < f x" using assms(1) xs by simp
  ultimately show ?thesis by (simp add: xs n)
qed

lemma selection_zero_iff:
  "sub_transferSize (snd (selection e s st)) = 0 \<longleftrightarrow> fst (selection e s st) = 0"
proof
  assume z: "sub_transferSize (snd (selection e s st)) = 0"
  show "fst (selection e s st) = 0"
  proof (rule ccontr)
    assume "fst (selection e s st) \<noteq> 0"
    then have pos: "0 < fst (selection e s st)" by simp
    with selection_bounds[of e s st] have "entityItems e s \<noteq> []" by auto
    from sum_list_pos_take[OF _ pos this, of item_transferSize] entityItems_positive[of _ e s]
    have "0 < sumItems item_transferSize (take (fst (selection e s st)) (entityItems e s))"
      by (auto simp: sumItems_def)
    with z show False by (simp add: selection_sums)
  qed
next
  assume "fst (selection e s st) = 0"
  then show "sub_transferSize (snd (selection e s st)) = 0"
    by (simp add: selection_sums sumItems_def)
qed


lemma map_set_fresh: "k \<notin> fst ` set m \<Longrightarrow> map_set k v m = m @ [(k, v)]"
  by (induction m) auto

lemma get_or_default_fresh: "k \<notin> fst ` set m \<Longrightarrow> get_or_default m k = defaultSummary"
  by (simp add: get_or_default_def map_of_eq_None_iff[THEN iffD2])

lemma foldl_addRequest_fresh:
  "distinct (map request_url rs) \<Longrightarrow> request_url ` set rs \<inter> fst ` set m = {} \<Longrightarrow>
   foldl addRequest m rs
     = m @ map (\<lambda>r. (request_url r,
                      \<lparr>mainThreadTime = 0, blockingTime = 0, transferSize = request_transferSize r\<rparr>)) rs"
proof (induction rs arbitrary: m)
  case Nil
  then show ?case by simp
next
  case (Cons r rs)
  have fresh: "request_url r \<notin> fst ` set m" using Cons.prems(2) by auto
  have step: "addRequest m r
      = m @ [(request_url r, \<lparr>mainThreadTime = 0, blockingTime = 0, transferSize = request_transferSize r\<rparr>)]"
    by (simp add: addRequest_def Let_def map_set_fresh[OF fresh] get_or_default_fresh[OF fresh]
        defaultSummary_def)
  have "request_url ` set rs \<inter> fst ` set (addRequest m r) = {}"
    using Cons.prems unfolding step by auto
  with Cons.IH[of "addRequest m r"] Cons.prems(1) show ?case
    by (simp add: step)
qed

lemma foldEntities_one_host:
  "\<forall>p\<in>set m. host (fst p) = Some e \<Longrightarrow>
   foldEntities host m ([(e, st)], [(e, us)])
     = Inr ([(e, \<lparr>mainThreadTime = mainThreadTime st + sumOver mainThreadTime m,
                   blockingTime = blockingTime st + sumOver blockingTime m,
                   transferSize = transferSize st + sumOver transferSize m\<rparr>)],
            [(e, us @ map fst m)])"
proof (induction m arbitrary: st us)
  case Nil
  then show ?case by simp
next
  case (Cons p m)
  obtain u x where p: "p = (u, x)" by (cases p)
  have h: "host u = Some e" using Cons.prems p by simp
  have step: "addEntity ([(e, st)], [(e, us)]) e u x
      = ([(e, \<lparr>mainThreadTime = mainThreadTime st + mainThreadTime x,
                blockingTime = blockingTime st + blockingTime x,
                transferSize = transferSize st + transferSize x\<rparr>)], [(e, us @ [u])])"
    by (simp add: addEntity_def Let_def get_or_default_def get_or_empty_def)
  show ?case
    using Cons.prems by (simp add: p h step Cons.IH add.assoc)
qed

lemma foldEntities_one_host_start:
  assumes "\<forall>p\<in>set m. host (fst p) = Some e" and "m \<noteq> []"
  shows "foldEntities host m ([], [])
     = Inr ([(e, \<lparr>mainThreadTime = sumOver mainThreadTime m, blockingTime = sumOver blockingTime m,
                   transferSize = sumOver transferSize m\<rparr>)], [(e, map fst m)])"
proof -
  obtain u x m' where m: "m = (u, x) # m'" using assms(2) by (cases m) auto
  have h: "host u = Some e" and rest: "\<forall>p\<in>set m'. host (fst p) = Some e"
    using assms(1) m by simp_all
  have step: "addEntity ([], []) e u x
      = ([(e, \<lparr>mainThreadTime = mainThreadTime x, blockingTime = blockingTime x,
                transferSize = transferSize x\<rparr>)], [(e, [u])])"
    by (simp add: addEntity_def Let_def get_or_default_def get_or_empty_def defaultSummary_def)
  show ?thesis
    by (simp add: m h step foldEntities_one_host[OF rest])
qed

lemma scenario_urls_length: "length scenario_urls = 200"
  by (simp add: scenario_urls_def)

lemma scenario_urls_distinct: "distinct scenario_urls"
  unfolding scenario_urls_def
  by (rule distinct_map[THEN iffD2]) (auto intro!: inj_onI dest: arg_cong[where f = length])

lemma sumOver_const: "sumOver f (map (\<lambda>u. (u, c)) us) = of_nat (length us) * f c"
  by (induction us) (simp_all add: algebra_simps)

lemma scenario_getSummaries:
  "getSummaries scenario_env scenario_records [] 1 = Inr scenario_summaries"
proof -
  let ?m = "map (\<lambda>u. (u, \<lparr>mainThreadTime = 0, blockingTime = 0, transferSize = 100\<rparr>)) scenario_urls"
  have "distinct (map request_url scenario_records)"
    using scenario_urls_distinct by (simp add: scenario_records_def comp_def)
  from foldl_addRequest_fresh[OF this, of "[]"]
  have m: "foldl addRequest [] scenario_records = ?m"
    by (simp add: scenario_records_def comp_def)
  have "?m \<noteq> []" using scenario_urls_length by auto
  from foldEntities_one_host_start[OF _ this, of "\<lambda>u. Some ''cdn.example''" "''cdn.example''"]
  have "foldEntities (\<lambda>u. Some ''cdn.example'') ?m ([], [])
      = Inr ([(''cdn.example'', scenario_stats)], [(''cdn.example'', scenario_urls)])"
    by (simp add: sumOver_const scenario_urls_length scenario_stats_def comp_def)
  then show ?thesis
    by (simp add: getSummaries_def scenario_env_def m scenario_summaries_def)
qed

lemma scenario_makeSubItems: "makeSubItems ''cdn.example'' scenario_summaries scenario_stats = []"
proof (rule makeSubItems_stops_first, rule ballI)
  fix it assume "it \<in> set (entityItems ''cdn.example'' scenario_summaries)"
  then obtain u st where "(u, st) \<in> set (byURL scenario_summaries)"
    and "item_blockingTime it = blockingTime st" and "item_transferSize it = transferSize st"
    by (auto dest!: entityItems_joined joined_Some)
  then show "item_blockingTime it = 0 \<and> item_transferSize it < minTransferSize scenario_stats"
    by (auto simp: scenario_summaries_def minTransferSize_def MIN_TRANSFER_SIZE_FOR_SUBITEMS_def)
qed

lemma small_getSummaries: "getSummaries small_env small_records [] 1 = Inr small_summaries"
  by (simp add: small_env_def small_records_def small_hosts_def small_summaries_def small_stats_def
      eval_simps)

lemma small_entityItems:
  "entityItems ''c.com'' small_summaries
     = [\<lparr>url = Url ''https://c.com/a.css'', item_mainThreadTime = Some 0, item_blockingTime = 0,
          item_transferSize = 3000\<rparr>,
        \<lparr>url = Url ''https://c.com/b.css'', item_mainThreadTime = Some 0, item_blockingTime = 0,
          item_transferSize = 3000\<rparr>]"
  by (simp add: small_summaries_def eval_simps)

lemma small_minTransferSize: "minTransferSize small_stats = 4096"
  by (simp add: small_stats_def minTransferSize_def MIN_TRANSFER_SIZE_FOR_SUBITEMS_def)

lemma small_selection:
  "selection ''c.com'' small_summaries small_stats = (0, \<lparr>sub_transferSize = 0, sub_blockingTime = 0\<rparr>)"
  by (simp add: selection_def small_entityItems small_minTransferSize MAX_SUBITEMS_def walk.simps)




text \<open>
  C7. Empty selection. When the selected subtotal is zero, which is when no item passed
  the stop rule (\<open>numSubItems = 0\<close>), \<^verbatim>\<open>makeSubItems\<close> returns the empty list; so it
  does when every item of the entity has no blocking time and a transfer size below
  \<open>minTransferSize\<close>. In particular for scenario 5: the summaries are those that
  \<^verbatim>\<open>getSummaries\<close> returns for 200 records of 100 bytes with distinct URLs of one host,
  the total of the entity is 20000 bytes, \<open>minTransferSize\<close> is 4096, and the list of
  sub-items is empty.
\<close>

theorem makeSubItems_empty_selection:
  "(sub_blockingTime (snd (selection e s st)) = 0 \<and> sub_transferSize (snd (selection e s st)) = 0
      \<longrightarrow> makeSubItems e s st = [])
   \<and> (fst (selection e s st) = 0 \<longrightarrow> makeSubItems e s st = [])
   \<and> ((sub_blockingTime (snd (selection e s st)) = 0 \<and> sub_transferSize (snd (selection e s st)) = 0)
        = (fst (selection e s st) = 0))
   \<and> ((\<forall>it\<in>set (entityItems e s). item_blockingTime it = 0 \<and> item_transferSize it < minTransferSize st)
      \<longrightarrow> makeSubItems e s st = [])
   \<and> getSummaries scenario_env scenario_records [] 1 = Inr scenario_summaries
   \<and> length scenario_urls = 200 \<and> distinct scenario_urls
   \<and> map_of (byEntity scenario_summaries) ''cdn.example'' = Some scenario_stats
   \<and> transferSize scenario_stats = 20000 \<and> minTransferSize scenario_stats = 4096
   \<and> makeSubItems ''cdn.example'' scenario_summaries scenario_stats = []"
proof -
  have "fst (selection e s st) = 0 \<longrightarrow> makeSubItems e s st = []"
    by (simp add: makeSubItems_def selection_sums sumItems_def)
  moreover have "sub_blockingTime (snd (selection e s st)) = 0 \<and> sub_transferSize (snd (selection e s st)) = 0
      \<longrightarrow> makeSubItems e s st = []"
    by (simp add: makeSubItems_def)
  moreover have "(sub_blockingTime (snd (selection e s st)) = 0 \<and> sub_transferSize (snd (selection e s st)) = 0)
        = (fst (selection e s st) = 0)"
    using selection_zero_iff[of e s st] by (auto simp: selection_sums(2) sumItems_def)
  moreover have "(\<forall>it\<in>set (entityItems e s). item_blockingTime it = 0 \<and> item_transferSize it < minTransferSize st)
      \<longrightarrow> makeSubItems e s st = []"
    using makeSubItems_stops_first by blast
  moreover have "map_of (byEntity scenario_summaries) ''cdn.example'' = Some scenario_stats"
    and "transferSize scenario_stats = 20000" and "minTransferSize scenario_stats = 4096"
    by (simp_all add: scenario_summaries_def scenario_stats_def minTransferSize_def
        MIN_TRANSFER_SIZE_FOR_SUBITEMS_def)
  ultimately show ?thesis
    using scenario_getSummaries scenario_urls_length scenario_urls_distinct scenario_makeSubItems
    by blast
qed

theorem makeSubItems_empty_selection_witness:
  "getSummaries small_env small_records [] 1 = Inr small_summaries
   \<and> map_of (byEntity small_summaries) ''c.com'' = Some small_stats
   \<and> length (entityItems ''c.com'' small_summaries) = 2
   \<and> list_all (\<lambda>it. item_blockingTime it = 0 \<and> item_transferSize it < minTransferSize small_stats)
        (entityItems ''c.com'' small_summaries)
   \<and> fst (selection ''c.com'' small_summaries small_stats) = 0
   \<and> sub_blockingTime (snd (selection ''c.com'' small_summaries small_stats)) = 0
   \<and> sub_transferSize (snd (selection ''c.com'' small_summaries small_stats)) = 0
   \<and> makeSubItems ''c.com'' small_summaries small_stats = []"
proof -
  have E: "map_of (byEntity small_summaries) ''c.com'' = Some small_stats"
    by (simp add: small_summaries_def)
  have A: "list_all (\<lambda>it. item_blockingTime it = 0 \<and> item_transferSize it < minTransferSize small_stats)
        (entityItems ''c.com'' small_summaries)"
    by (simp add: small_entityItems small_minTransferSize)
  from makeSubItems_empty_selection[of "''c.com''" small_summaries small_stats]
  have "makeSubItems ''c.com'' small_summaries small_stats = []"
    by (simp add: small_selection)
  with E A small_getSummaries show ?thesis
    by (simp add: small_selection small_entityItems)
qed

subsection \<open>makeSubItems with rounding\<close>



lemma walk64_bounds:
  "n \<le> maxN \<Longrightarrow> n \<le> fst (walk64 items minTS maxN n sub) \<and> fst (walk64 items minTS maxN n sub) \<le> maxN"
proof (induction items minTS maxN n sub rule: walk64.induct)
  case (1 items minTS maxN n sub)
  show ?case
  proof (cases "n < maxN \<and> \<not> (item_blockingTime (items ! n) = 0 \<and> item_transferSize (items ! n) < minTS)")
    case True
    then have "n + 1 \<le> maxN" by simp
    with 1 True show ?thesis
      by (subst (1 2) walk64.simps) auto
  next
    case False
    with 1(2) show ?thesis
      by (subst (1 2) walk64.simps) auto
  qed
qed

lemma selection64_bounds:
  "fst (selection64 e s st) \<le> MAX_SUBITEMS \<and> fst (selection64 e s st) \<le> length (entityItems64 e s)"
  using walk64_bounds[of 0 "min MAX_SUBITEMS (length (entityItems64 e s))" "entityItems64 e s"
      "minTransferSize64 st"]
  by (simp add: selection64_def Let_def)




















subsection \<open>The claims on audit\<close>

lemma results_entities:
  "mset (map entity_text (results h s)) = mset (map fst (filter (\<lambda>e. keepEntity h (fst e)) (byEntity s)))"
proof -
  have "mset (results h s) = mset (map (makeRow s) (filter (\<lambda>e. keepEntity h (fst e)) (byEntity s)))"
    by (simp only: results_def mset_sort_with)
  then have "mset (map entity_text (results h s))
      = mset (map entity_text (map (makeRow s) (filter (\<lambda>e. keepEntity h (fst e)) (byEntity s))))"
    by (simp only: mset_map)
  also have "map entity_text (map (makeRow s) (filter (\<lambda>e. keepEntity h (fst e)) (byEntity s)))
      = map fst (filter (\<lambda>e. keepEntity h (fst e)) (byEntity s))"
    by (simp add: makeRow_def)
  finally show ?thesis .
qed

lemma length_results:
  "length (results h s) = length (filter (\<lambda>e. keepEntity h (fst e)) (byEntity s))"
  by (simp add: results_def length_sort_with)

lemma results_Nil: "results h s = [] \<longleftrightarrow> filter (\<lambda>e. keepEntity h (fst e)) (byEntity s) = []"
  using length_results[of h s] by (metis length_0_conv)

lemma row_entities_verdict: "mset (row_entities (verdict (results h s) ov))
   = mset (map fst (filter (\<lambda>e. keepEntity h (fst e)) (byEntity s)))"
proof (cases "results h s = []")
  case True
  then have "filter (\<lambda>e. keepEntity h (fst e)) (byEntity s) = []"
    by (simp only: results_Nil)
  with True show ?thesis by (simp add: row_entities_def verdict_def)
next
  case False
  then have "row_entities (verdict (results h s) ov) = map entity_text (results h s)"
    by (simp add: row_entities_def verdict_def)
  then show ?thesis by (simp only: results_entities)
qed

lemma audit_Inr:
  assumes "urlHost env (finalUrl a) = Some h"
    and "getSummaries env (networkRecords a) (tasks a) (multiplier st) = Inr s"
  shows "audit env a st = Inr (verdict (results h s) (overall h s))"
  using assms by (simp add: audit_def)

lemma wastedMs_foldl:
  "wastedMs (foldl accumulate ov es) = wastedMs ov + sum_list (map (\<lambda>e. blockingTime (snd e)) es)"
  by (induction es arbitrary: ov) (simp_all add: accumulate_def)

lemma overall_wastedMs:
  "wastedMs (overall h s) = sum_list (map (\<lambda>r. blockingTime (stats r)) (results h s))"
  by (simp add: overall_def results_def wastedMs_foldl sum_list_sort_with makeRow_def comp_def)

lemma getSummaries_local:
  "getSummaries local_env (networkRecords local_page) (tasks local_page) (multiplier example_settings)
     = Inr local_summaries"
  by (simp add: local_env_def local_page_def local_hosts_def local_summaries_def example_settings_def eval_simps)

lemma audit_local: "audit local_env local_page example_settings = Inr local_result"
  by (simp add: local_env_def local_page_def local_hosts_def local_result_def example_settings_def eval_simps)

lemma audit_example: "audit example_env example_page example_settings = Inr example_result"
  by (simp add: example_env_def example_page_def example_hosts_def example_result_def example_settings_def
      example_records_def example_tasks_def eval_simps)

lemma getSummaries_own:
  "getSummaries example_env (networkRecords own_page) (tasks own_page) (multiplier example_settings)
     = Inr own_summaries"
  by (simp add: example_env_def own_page_def example_hosts_def own_summaries_def example_settings_def eval_simps)

lemma audit_own: "audit example_env own_page example_settings = Inr notApplicable_result"
  by (simp add: example_env_def own_page_def example_hosts_def notApplicable_result_def
      example_settings_def eval_simps)

lemma getSummaries_example_page:
  "getSummaries example_env (networkRecords example_page) (tasks example_page) (multiplier example_settings)
     = Inr example_summaries"
  using getSummaries_example by (simp add: example_page_def example_settings_def multiplier_def)

lemma host_example_page: "urlHost example_env (finalUrl example_page) = Some ''b.com''"
  by (simp add: example_env_def example_page_def example_hosts_def)

lemma host_own_page: "urlHost example_env (finalUrl own_page) = Some ''b.com''"
  by (simp add: example_env_def own_page_def example_hosts_def)

lemma host_local_page: "urlHost local_env (finalUrl local_page) = Some []"
  by (simp add: local_env_def local_page_def local_hosts_def)

text \<open>
  C2. The verdict. When \<^verbatim>\<open>audit\<close> returns and there is at least one row, the score
  is 1 exactly when the accumulated \<^verbatim>\<open>wastedMs\<close>, the sum of the blocking times of the
  rows, is at most 250, and 0 otherwise; the result has no \<^verbatim>\<open>notApplicable\<close> and it has
  the table. When there is no row, the result is \<^verbatim>\<open>{ score: 1, notApplicable: true }\<close>: it
  is marked not applicable and has no table, so it differs from every result with rows.
\<close>

theorem audit_verdict:
  assumes "urlHost env (finalUrl a) = Some h"
    and "getSummaries env (networkRecords a) (tasks a) (multiplier st) = Inr s"
    and "audit env a st = Inr r"
  shows "(results h s \<noteq> [] \<longrightarrow>
            (score r = 1 \<longleftrightarrow> wastedMs (overall h s) \<le> 250)
          \<and> (score r = 0 \<longleftrightarrow> \<not> wastedMs (overall h s) \<le> 250)
          \<and> \<not> notApplicable r \<and> details r = Some (results h s, overall h s))
       \<and> (results h s = [] \<longrightarrow> notApplicable r \<and> details r = None \<and> score r = 1)
       \<and> wastedMs (overall h s) = sum_list (map (\<lambda>r. blockingTime (stats r)) (results h s))
       \<and> verdict [] ov \<noteq> verdict (x # xs) ov'"
proof -
  have r: "r = verdict (results h s) (overall h s)"
    using audit_Inr[OF assms(1,2)] assms(3) by simp
  show ?thesis
    unfolding r by (simp add: verdict_def PASS_THRESHOLD_IN_MS_def overall_wastedMs)
qed

theorem audit_verdict_witness:
  "urlHost example_env (finalUrl example_page) = Some ''b.com''
   \<and> audit example_env example_page example_settings = Inr example_result
   \<and> results ''b.com'' example_summaries \<noteq> []
   \<and> wastedMs (overall ''b.com'' example_summaries) = 300
   \<and> score example_result = 0 \<and> \<not> notApplicable example_result
   \<and> urlHost example_env (finalUrl own_page) = Some ''b.com''
   \<and> audit example_env own_page example_settings = Inr notApplicable_result
   \<and> results ''b.com'' own_summaries = []
   \<and> notApplicable notApplicable_result \<and> details notApplicable_result = None"
proof -
  have R: "results ''b.com'' example_summaries \<noteq> []"
    and O: "wastedMs (overall ''b.com'' example_summaries) = 300"
    and N: "results ''b.com'' own_summaries = []"
    by (simp_all add: example_summaries_def own_summaries_def results_def overall_def keepEntity_def
        accumulate_def sort_with_def)
  from audit_verdict[OF host_example_page getSummaries_example_page audit_example]
    audit_verdict[OF host_own_page getSummaries_own audit_own]
  have "score example_result = 0" and "\<not> notApplicable example_result"
    and "notApplicable notApplicable_result" and "details notApplicable_result = None"
    using R O N by simp_all
  with R O N host_example_page audit_example host_own_page audit_own show ?thesis
    by simp
qed

text \<open>
  C3. The claim: for every input, the host of the final URL is not among the entities of
  the rows. It fails for a final URL with the empty host (a page opened from a file):
  the filter of line 122 removes an entity only when \<^verbatim>\<open>mainEntity\<close> is truthy.
\<close>

theorem audit_first_party_counterexample:
  "urlHost local_env (finalUrl local_page) = Some []
   \<and> audit local_env local_page example_settings = Inr local_result
   \<and> row_entities local_result = [[]]"
  using host_local_page audit_local by (simp add: row_entities_def local_result_def)

text \<open>
  C3, amended. For every input whose final URL has a host that is not empty, and for
  which \<^verbatim>\<open>audit\<close> returns: that host is not among the entities of the rows, and the
  entities of the rows are the keys of \<^verbatim>\<open>byEntity\<close> but that host. \<^verbatim>\<open>byEntity\<close> is
  what \<^verbatim>\<open>getSummaries\<close> returned, computed from the records and the tasks alone, so it
  holds the totals of the page's own host.
\<close>

theorem audit_excludes_first_party:
  assumes "urlHost env (finalUrl a) = Some h" and "h \<noteq> []"
    and "getSummaries env (networkRecords a) (tasks a) (multiplier st) = Inr s"
    and "audit env a st = Inr r"
  shows "h \<notin> set (row_entities r) \<and> set (row_entities r) = fst ` set (byEntity s) - {h}"
proof -
  have r: "r = verdict (results h s) (overall h s)"
    using audit_Inr[OF assms(1,3)] assms(4) by simp
  have "set_mset (mset (row_entities r))
      = set_mset (mset (map fst (filter (\<lambda>e. keepEntity h (fst e)) (byEntity s))))"
    unfolding r by (simp only: row_entities_verdict)
  then have "set (row_entities r) = set (map fst (filter (\<lambda>e. keepEntity h (fst e)) (byEntity s)))"
    by (simp only: set_mset_mset)
  also have "\<dots> = fst ` set (byEntity s) - {h}"
    using assms(2) by (force simp: keepEntity_def)
  finally show ?thesis by simp
qed

theorem audit_excludes_first_party_witness:
  "urlHost example_env (finalUrl example_page) = Some ''b.com'' \<and> ''b.com'' \<noteq> []
   \<and> getSummaries example_env (networkRecords example_page) (tasks example_page)
        (multiplier example_settings) = Inr example_summaries
   \<and> audit example_env example_page example_settings = Inr example_result
   \<and> map_of (byEntity example_summaries) ''b.com''
        = Some \<lparr>mainThreadTime = 60, blockingTime = 10, transferSize = 500\<rparr>
   \<and> row_entities example_result = [''a.com'']
   \<and> ''b.com'' \<notin> set (row_entities example_result)"
  using audit_excludes_first_party[OF host_example_page _ getSummaries_example_page audit_example]
    host_example_page getSummaries_example_page audit_example
  by (simp add: example_summaries_def row_entities_def example_result_def)

text \<open>
  C10. For every input whose final URL has the empty host, and for which \<^verbatim>\<open>audit\<close>
  returns: no entity is left out, the entities of the rows are the keys of
  \<^verbatim>\<open>byEntity\<close>, each once; the entity with the empty host, when there is one, is among
  the rows.
\<close>

theorem audit_empty_host_keeps_all:
  assumes "urlHost env (finalUrl a) = Some []"
    and "getSummaries env (networkRecords a) (tasks a) (multiplier st) = Inr s"
    and "audit env a st = Inr r"
  shows "mset (row_entities r) = mset (map fst (byEntity s))
       \<and> ([] \<in> fst ` set (byEntity s) \<longrightarrow> [] \<in> set (row_entities r))"
proof -
  have r: "r = verdict (results [] s) (overall [] s)"
    using audit_Inr[OF assms(1,2)] assms(3) by simp
  have m: "mset (row_entities r) = mset (map fst (byEntity s))"
    unfolding r row_entities_verdict by (simp add: keepEntity_def)
  then have "set (row_entities r) = fst ` set (byEntity s)"
    by (metis set_mset_mset set_map)
  with m show ?thesis by simp
qed

theorem audit_empty_host_keeps_all_witness:
  "urlHost local_env (finalUrl local_page) = Some []
   \<and> getSummaries local_env (networkRecords local_page) (tasks local_page)
        (multiplier example_settings) = Inr local_summaries
   \<and> audit local_env local_page example_settings = Inr local_result
   \<and> map fst (byEntity local_summaries) = [[]]
   \<and> [] \<in> set (row_entities local_result)"
  using audit_empty_host_keeps_all[OF host_local_page getSummaries_local audit_local]
    host_local_page getSummaries_local audit_local
  by (simp add: local_summaries_def)

subsection \<open>The missing declaration\<close>

text \<open>
  C5. The claim: every invocation of \<^verbatim>\<open>getSummaries\<close> builds its per-URL map fresh and
  completes without a reference error. The code: with no binding of \<^verbatim>\<open>byURL\<close>, which is
  the module as written, every invocation ends in the reference error, whatever the
  records, the tasks and the multiplier.
\<close>

theorem getSummaries_unbound_ReferenceError:
  "getSummaries (unbound env) records ts c = Inl ReferenceError"
  by (simp add: getSummaries_def unbound_def)

end
